theory Spec2Isabelle
  imports Main
begin

section \<open>Values exchanged between the steps\<close>

text \<open>
  The source is \<^verbatim>\<open>backend/services/process_oneagent_release_notes.py\<close>. The two
  steps of the service hand back Python values of different run-time types: a dict literal
  \<^verbatim>\<open>{"error": msg}\<close>, a plain \<^verbatim>\<open>str\<close> (the version), or a parsed data-model
  instance. Python is dynamically typed, so the caller tests all of them with the same
  membership operator. A dict is kept as an association list from keys to string values.
\<close>

datatype pyvalue =
    PyDict "(string \<times> string) list"
  | PyStr string

text \<open>
  Modelled from the spec: the module \<^verbatim>\<open>data_models\<close> with the classes
  \<^verbatim>\<open>ComponentLatestReleaseVersion\<close> and \<^verbatim>\<open>ComponentLatestReleaseSummary\<close> is not part
  of the sources. The first has the field \<^verbatim>\<open>version\<close> (a string), the second has
  \<^verbatim>\<open>latestVersion\<close> and a natural-language \<^verbatim>\<open>summary\<close>. The attribute assignment in
  the summary step stores whichever value it is handed, so the field holds a \<open>pyvalue\<close>.
\<close>

record ComponentLatestReleaseVersion =
  version :: string

record ComponentLatestReleaseSummary =
  latestVersion :: pyvalue
  summary :: string

text \<open>What a step can hand back: a plain value or a parsed summary instance.\<close>

datatype step_result =
    Plain pyvalue
  | Model ComponentLatestReleaseSummary

text \<open>
  \<^verbatim>\<open>JSONResponse(status_code=..., content=...)\<close> of the web framework, and what the
  main method gives its caller: either such a response or the value it returns as it is.
\<close>

record JSONResponse =
  status_code :: int
  content :: step_result

datatype outcome =
    Response JSONResponse
  | Returned step_result

section \<open>Python's membership operator\<close>

text \<open>
  \<^verbatim>\<open>x in s\<close> on two strings is the substring test: some suffix of \<open>s\<close> starts with
  \<open>x\<close>.
\<close>

fun starts_with :: "string \<Rightarrow> string \<Rightarrow> bool" where
  "starts_with [] s = True"
| "starts_with (c # cs) [] = False"
| "starts_with (c # cs) (d # ds) = (c = d \<and> starts_with cs ds)"

fun str_contains :: "string \<Rightarrow> string \<Rightarrow> bool" where
  "str_contains x [] = starts_with x []"
| "str_contains x (d # ds) = (starts_with x (d # ds) \<or> str_contains x ds)"

text \<open>
  \<^verbatim>\<open>x in v\<close> for a string \<open>x\<close>: key membership on a dict, substring on a string.
\<close>

fun py_in :: "string \<Rightarrow> pyvalue \<Rightarrow> bool" where
  "py_in x (PyDict kvs) = (x \<in> set (map fst kvs))"
| "py_in x (PyStr s) = str_contains x s"

text \<open>
  A data-model instance defines no \<^verbatim>\<open>__contains__\<close>; membership falls back to iterating
  over its \<^verbatim>\<open>(name, value)\<close> pairs, and a string never equals a pair.
\<close>

fun py_in_result :: "string \<Rightarrow> step_result \<Rightarrow> bool" where
  "py_in_result x (Plain v) = py_in x v"
| "py_in_result x (Model r) = False"

section \<open>Collaborators, faults and the call log\<close>

text \<open>
  A fault is what \<^verbatim>\<open>except Exception as e\<close> binds; \<open>str_of\<close> is \<^verbatim>\<open>str(e)\<close>.
\<close>

datatype exception = Exception string

fun str_of :: "exception \<Rightarrow> string" where
  "str_of (Exception m) = m"

text \<open>
  The completion client: \<^verbatim>\<open>responses.parse\<close> with the text format of the version
  record and of the summary record. Each either raises or returns a response whose
  \<^verbatim>\<open>output_parsed\<close> is \<^verbatim>\<open>None\<close> or an instance. The argument is the prompt.
\<close>

record client =
  responses_parse_version :: "string \<Rightarrow> exception + ComponentLatestReleaseVersion option"
  responses_parse_summary :: "string \<Rightarrow> exception + ComponentLatestReleaseSummary option"

text \<open>
  The surroundings of one request: the injected client handle (\<open>None\<close> is the falsy,
  unconfigured handle) and the two prompt builders of \<^verbatim>\<open>prompts.oneagent_prompts\<close>,
  which are not part of the sources and are taken as parameters.
\<close>

record env =
  openai_client :: "client option"
  get_oneagent_version_prompt :: "exception + string"
  get_oneagent_summary_prompt :: "pyvalue \<Rightarrow> exception + string"

text \<open>Every call that leaves the service is recorded, in order.\<close>

datatype event =
    VersionPromptCall
  | SummaryPromptCall pyvalue
  | ParseVersionCall string
  | ParseSummaryCall string

text \<open>
  A computation threads the call log and ends in a raised fault (\<open>Inl\<close>) or a value
  (\<open>Inr\<close>).
\<close>

type_synonym 'a py = "event list \<Rightarrow> (exception + 'a) \<times> event list"

definition py_return :: "'a \<Rightarrow> 'a py" where
  "py_return x = (\<lambda>log. (Inr x, log))"

definition py_raise :: "exception \<Rightarrow> 'a py" where
  "py_raise e = (\<lambda>log. (Inl e, log))"

definition py_bind :: "'a py \<Rightarrow> ('a \<Rightarrow> 'b py) \<Rightarrow> 'b py" where
  "py_bind m f = (\<lambda>log. case m log of
      (Inl e, log') \<Rightarrow> (Inl e, log')
    | (Inr x, log') \<Rightarrow> f x log')"

text \<open>\<^verbatim>\<open>try: m  except Exception as e: h e\<close>\<close>

definition py_try :: "'a py \<Rightarrow> (exception \<Rightarrow> 'a py) \<Rightarrow> 'a py" where
  "py_try m h = (\<lambda>log. case m log of
      (Inl e, log') \<Rightarrow> h e log'
    | (Inr x, log') \<Rightarrow> (Inr x, log'))"

text \<open>An external call: it is logged, then raises or returns.\<close>

definition py_call :: "event \<Rightarrow> exception + 'a \<Rightarrow> 'a py" where
  "py_call ev r = (\<lambda>log. (r, log @ [ev]))"

section \<open>The service\<close>

text \<open>
  \<^verbatim>\<open>_oneagent_latest_version\<close>. The \<^verbatim>\<open>print\<close> and logger lines have no effect on the
  result and are left out.
\<close>

definition oneagent_latest_version :: "env \<Rightarrow> pyvalue py" where
  "oneagent_latest_version e =
    (case openai_client e of
       None \<Rightarrow> py_return (PyDict [(''error'', ''OpenAI API key not configured.'')])
     | Some c \<Rightarrow>
         py_try
           (py_bind (py_call VersionPromptCall (get_oneagent_version_prompt e))
              (\<lambda>oneagent_version_prompt.
                py_bind (py_call (ParseVersionCall oneagent_version_prompt)
                           (responses_parse_version c oneagent_version_prompt))
                  (\<lambda>result.
                    case result of
                      None \<Rightarrow> py_return
                        (PyDict [(''error'', ''Failed to extract the latest OneAgent version.'')])
                    | Some r \<Rightarrow> py_return (PyStr (version r)))))
           (\<lambda>ex. py_return (PyDict [(''error'', str_of ex)])))"

text \<open>\<^verbatim>\<open>_get_oneagent_latest_version\<close> only forwards.\<close>

definition get_oneagent_latest_version :: "env \<Rightarrow> pyvalue py" where
  "get_oneagent_latest_version e = oneagent_latest_version e"

text \<open>
  \<^verbatim>\<open>_get_oneagent_release_summary\<close>. The client handle is not tested here: on a
  \<^verbatim>\<open>None\<close> handle the attribute access raises inside the \<^verbatim>\<open>try\<close>, after the prompt
  was built.
\<close>

definition get_oneagent_release_summary :: "env \<Rightarrow> pyvalue \<Rightarrow> step_result py" where
  "get_oneagent_release_summary e ver =
    py_try
      (py_bind (py_call (SummaryPromptCall ver) (get_oneagent_summary_prompt e ver))
         (\<lambda>summary_prompt.
           case openai_client e of
             None \<Rightarrow> py_raise
               (Exception (CHR 0x27 # ''NoneType'' @ CHR 0x27 #
                  '' object has no attribute '' @ CHR 0x27 # ''responses'' @ [CHR 0x27]))
           | Some c \<Rightarrow>
               py_bind (py_call (ParseSummaryCall summary_prompt)
                          (responses_parse_summary c summary_prompt))
                 (\<lambda>result.
                   case result of
                     None \<Rightarrow> py_return
                       (Plain (PyDict [(''error'', ''Failed to get summary from OpenAI.'')]))
                   | Some r \<Rightarrow> py_return (Model (r\<lparr>latestVersion := ver\<rparr>)))))
      (\<lambda>ex. py_return (Plain (PyDict [(''error'', str_of ex)])))"

text \<open>\<^verbatim>\<open>process_dynatrace_release_news\<close>\<close>

definition process_dynatrace_release_news :: "env \<Rightarrow> outcome py" where
  "process_dynatrace_release_news e =
    py_bind (get_oneagent_latest_version e)
      (\<lambda>one_agent_latest_version.
        if py_in ''error'' one_agent_latest_version
        then py_return
          (Response \<lparr>status_code = 500, content = Plain one_agent_latest_version\<rparr>)
        else
          py_bind (get_oneagent_release_summary e one_agent_latest_version)
            (\<lambda>summary_result.
              if py_in_result ''error'' summary_result
              then py_return (Response \<lparr>status_code = 500, content = summary_result\<rparr>)
              else py_return (Returned summary_result)))"

text \<open>The external calls an execution made that belong to the summary lookup.\<close>

fun is_summary_call :: "event \<Rightarrow> bool" where
  "is_summary_call (SummaryPromptCall v) = True"
| "is_summary_call (ParseSummaryCall p) = True"
| "is_summary_call ev = False"

section \<open>Test doubles\<close>

text \<open>
  A completion client that answers every prompt the same way, and surroundings whose
  prompt builders succeed with fixed prompts.
\<close>

definition stub_client :: "exception + ComponentLatestReleaseVersion option \<Rightarrow>
    exception + ComponentLatestReleaseSummary option \<Rightarrow> client" where
  "stub_client pv ps =
    \<lparr>responses_parse_version = (\<lambda>prompt. pv), responses_parse_summary = (\<lambda>prompt. ps)\<rparr>"

definition stub_env :: "client option \<Rightarrow> env" where
  "stub_env c =
    \<lparr>openai_client = c,
     get_oneagent_version_prompt = Inr ''version prompt'',
     get_oneagent_summary_prompt = (\<lambda>ver. Inr ''summary prompt'')\<rparr>"

section \<open>Auxiliary facts\<close>

lemmas py_defs = py_return_def py_raise_def py_bind_def py_try_def py_call_def

lemmas service_defs = process_dynatrace_release_news_def get_oneagent_latest_version_def
  oneagent_latest_version_def get_oneagent_release_summary_def

lemmas stub_defs = stub_client_def stub_env_def

text \<open>The recursive substring test is the usual one: \<open>s\<close> splits around \<open>x\<close>.\<close>

lemma starts_with_iff: "starts_with x s \<longleftrightarrow> (\<exists>ss. s = x @ ss)"
  by (induction x s rule: starts_with.induct) auto

lemma str_contains_iff: "str_contains x s \<longleftrightarrow> (\<exists>ps ss. s = ps @ x @ ss)"
proof (induction s)
  case Nil
  show ?case by (simp add: starts_with_iff)
next
  case (Cons d ds)
  show ?case
  proof
    assume "str_contains x (d # ds)"
    then consider "starts_with x (d # ds)" | "str_contains x ds" by auto
    then show "\<exists>ps ss. d # ds = ps @ x @ ss"
    proof cases
      case 1
      then obtain ss where "d # ds = x @ ss" using starts_with_iff by blast
      then have "d # ds = [] @ x @ ss" by simp
      then show ?thesis by blast
    next
      case 2
      then obtain ps ss where "ds = ps @ x @ ss" using Cons.IH by blast
      then have "d # ds = (d # ps) @ x @ ss" by simp
      then show ?thesis by blast
    qed
  next
    assume "\<exists>ps ss. d # ds = ps @ x @ ss"
    then obtain ps ss where eq: "d # ds = ps @ x @ ss" by blast
    show "str_contains x (d # ds)"
    proof (cases ps)
      case Nil
      then have "starts_with x (d # ds)" using eq starts_with_iff by auto
      then show ?thesis by simp
    next
      case (Cons a as)
      then have "ds = as @ x @ ss" using eq by simp
      then have "str_contains x ds" using Cons.IH by blast
      then show ?thesis by simp
    qed
  qed
qed

text \<open>Neither step lets a fault escape, and every dict a step returns is an error record.\<close>

lemma latest_version_returns:
  "\<exists>v log1. get_oneagent_latest_version e log = (Inr v, log1)"
  by (auto simp add: service_defs py_defs split: option.splits sum.splits)

lemma release_summary_returns:
  "\<exists>r log1. get_oneagent_release_summary e ver log = (Inr r, log1)"
  by (auto simp add: service_defs py_defs split: option.splits sum.splits)

lemma latest_version_error_keys:
  assumes "get_oneagent_latest_version e log = (Inr (PyDict d), log1)"
  shows "\<exists>m. d = [(''error'', m)]"
  using assms
  by (auto simp add: service_defs py_defs split: option.splits sum.splits)

lemma release_summary_error_keys:
  assumes "get_oneagent_release_summary e ver log = (Inr (Plain (PyDict d)), log1)"
  shows "\<exists>m. d = [(''error'', m)]"
  using assms
  by (auto simp add: service_defs py_defs split: option.splits sum.splits)

text \<open>
  The answer of the main method is always one of three: a parsed summary record, a 500
  response with an error record, or a 500 response with a string.
\<close>

lemma process_outcomes:
  "\<exists>out log'. process_dynatrace_release_news e log = (Inr out, log') \<and>
     ((\<exists>r. out = Returned (Model r)) \<or>
      (\<exists>m. out = Response \<lparr>status_code = 500, content = Plain (PyDict [(''error'', m)])\<rparr>) \<or>
      (\<exists>s. out = Response \<lparr>status_code = 500, content = Plain (PyStr s)\<rparr>))"
  by (auto simp add: service_defs py_defs split: option.splits sum.splits)

text \<open>
  When a step hands back a dict \<open>d\<close>, the answer is the 500 response with the body
  \<open>d\<close>, and \<open>d\<close> has the single key \<open>error\<close>.
\<close>

lemma step_error_answered_with_record:
  assumes "get_oneagent_latest_version e log = (Inr v1, log1)"
    and "v1 = PyDict d \<or>
      (\<not> py_in ''error'' v1 \<and>
       get_oneagent_release_summary e v1 log1 = (Inr (Plain (PyDict d)), log2))"
  shows "fst (process_dynatrace_release_news e log) =
      Inr (Response \<lparr>status_code = 500, content = Plain (PyDict d)\<rparr>)
    \<and> map fst d = [''error'']"
proof -
  from assms(2) show ?thesis
  proof
    assume v1: "v1 = PyDict d"
    then obtain m where d: "d = [(''error'', m)]"
      using assms(1) latest_version_error_keys by blast
    then show ?thesis
      using assms(1) v1 by (simp add: process_dynatrace_release_news_def py_defs)
  next
    assume step2: "\<not> py_in ''error'' v1 \<and>
       get_oneagent_release_summary e v1 log1 = (Inr (Plain (PyDict d)), log2)"
    then obtain m where d: "d = [(''error'', m)]"
      using release_summary_error_keys by blast
    then show ?thesis
      using assms(1) step2 by (simp add: process_dynatrace_release_news_def py_defs)
  qed
qed

section \<open>Properties\<close>

subsection \<open>The version overwrite\<close>

text \<open>
  C1: in every execution in which the version lookup succeeds with the version record
  \<open>r\<close> and the summary lookup is carried out (its completion call for the prompt \<open>q\<close>
  is in the call log) and yields a parsed summary record \<open>s\<close>, the main method returns
  \<open>s\<close> with its \<open>latestVersion\<close> field replaced by the version of \<open>r\<close>, whatever the
  field held before; the other fields are untouched.
\<close>

theorem latest_version_overwritten:
  assumes "openai_client e = Some c"
    and "get_oneagent_version_prompt e = Inr p"
    and "responses_parse_version c p = Inr (Some r)"
    and "ParseSummaryCall q \<in> set (snd (process_dynatrace_release_news e []))"
    and "responses_parse_summary c q = Inr (Some s)"
  shows "fst (process_dynatrace_release_news e []) =
      Inr (Returned (Model (s\<lparr>latestVersion := PyStr (version r)\<rparr>)))
    \<and> latestVersion (s\<lparr>latestVersion := PyStr (version r)\<rparr>) = PyStr (version r)"
  using assms
  by (auto simp add: service_defs py_defs split: if_splits sum.splits option.splits)

text \<open>
  The end-to-end scenario: version "24.5", a summary whose \<open>latestVersion\<close> is "unset".
\<close>

theorem latest_version_overwritten_witness:
  "fst (process_dynatrace_release_news
     (stub_env (Some (stub_client (Inr (Some \<lparr>version = ''24.5''\<rparr>))
        (Inr (Some \<lparr>latestVersion = PyStr ''unset'', summary = ''Improved X''\<rparr>))))) []) =
     Inr (Returned (Model \<lparr>latestVersion = PyStr ''24.5'', summary = ''Improved X''\<rparr>))"
proof -
  let ?c = "stub_client (Inr (Some \<lparr>version = ''24.5''\<rparr>))
        (Inr (Some \<lparr>latestVersion = PyStr ''unset'', summary = ''Improved X''\<rparr>))"
  have h1: "openai_client (stub_env (Some ?c)) = Some ?c"
    by (simp add: stub_defs)
  have h2: "get_oneagent_version_prompt (stub_env (Some ?c)) = Inr ''version prompt''"
    by (simp add: stub_defs)
  have h3: "responses_parse_version ?c ''version prompt'' = Inr (Some \<lparr>version = ''24.5''\<rparr>)"
    by (simp add: stub_defs)
  have h4: "ParseSummaryCall ''summary prompt''
      \<in> set (snd (process_dynatrace_release_news (stub_env (Some ?c)) []))"
    by (simp add: service_defs py_defs stub_defs)
  have h5: "responses_parse_summary ?c ''summary prompt'' =
      Inr (Some \<lparr>latestVersion = PyStr ''unset'', summary = ''Improved X''\<rparr>)"
    by (simp add: stub_defs)
  show ?thesis
    using latest_version_overwritten [OF h1 h2 h3 h4 h5] by simp
qed

subsection \<open>Error detection between the steps\<close>

text \<open>
  C2: the result of a step should short-circuit the pipeline exactly when it has an
  \<open>error\<close> key, and every version string of a successful version lookup should reach
  the summary lookup. Here the version lookup succeeds with the string
  "unknown (search error)": the main method answers with a 500 response whose body is
  that string, and the call log ends after the version lookup.
\<close>

theorem version_string_taken_for_error:
  "process_dynatrace_release_news
     (stub_env (Some (stub_client (Inr (Some \<lparr>version = ''unknown (search error)''\<rparr>))
        (Inr (Some \<lparr>latestVersion = PyStr ''unset'', summary = ''Improved X''\<rparr>))))) [] =
     (Inr (Response \<lparr>status_code = 500, content = Plain (PyStr ''unknown (search error)'')\<rparr>),
      [VersionPromptCall, ParseVersionCall ''version prompt''])"
  by (simp add: service_defs py_defs stub_defs)

subsection \<open>Failures of the version lookup\<close>

text \<open>
  C3: with an unconfigured (falsy) client handle the main method answers with the error
  record "OpenAI API key not configured." in a 500 response, and the call log is
  unchanged: neither a prompt builder nor the completion client was invoked.
\<close>

theorem unconfigured_client_no_calls:
  assumes "openai_client e = None"
  shows "process_dynatrace_release_news e log =
    (Inr (Response \<lparr>status_code = 500,
        content = Plain (PyDict [(''error'', ''OpenAI API key not configured.'')])\<rparr>), log)"
  using assms by (simp add: service_defs py_defs)

theorem unconfigured_client_no_calls_witness:
  "openai_client (stub_env None) = None \<and>
   process_dynatrace_release_news (stub_env None) [] =
    (Inr (Response \<lparr>status_code = 500,
        content = Plain (PyDict [(''error'', ''OpenAI API key not configured.'')])\<rparr>), [])"
proof -
  have h: "openai_client (stub_env None) = None" by (simp add: stub_defs)
  show ?thesis using h unconfigured_client_no_calls [OF h, of "[]"] by simp
qed

text \<open>
  C4: when the version lookup raises the fault \<open>ex\<close>, in the prompt builder or in the
  completion call, the main method answers with the error record whose message is
  \<open>str_of ex\<close>, and the execution adds no call of the summary lookup to the log.
\<close>

theorem version_lookup_fault:
  assumes "openai_client e = Some c"
    and "get_oneagent_version_prompt e = Inl ex \<or>
      (\<exists>p. get_oneagent_version_prompt e = Inr p \<and> responses_parse_version c p = Inl ex)"
  shows "fst (process_dynatrace_release_news e log) =
      Inr (Response \<lparr>status_code = 500, content = Plain (PyDict [(''error'', str_of ex)])\<rparr>)
    \<and> filter is_summary_call (snd (process_dynatrace_release_news e log)) =
      filter is_summary_call log"
  using assms by (auto simp add: service_defs py_defs)

theorem version_lookup_fault_witness:
  "fst (process_dynatrace_release_news
      (stub_env (Some (stub_client (Inl (Exception ''rate limit exceeded'')) (Inr None)))) []) =
      Inr (Response \<lparr>status_code = 500,
        content = Plain (PyDict [(''error'', ''rate limit exceeded'')])\<rparr>)
    \<and> filter is_summary_call (snd (process_dynatrace_release_news
      (stub_env (Some (stub_client (Inl (Exception ''rate limit exceeded'')) (Inr None)))) [])) = []"
proof -
  let ?c = "stub_client (Inl (Exception ''rate limit exceeded'')) (Inr None)"
  have h1: "openai_client (stub_env (Some ?c)) = Some ?c"
    by (simp add: stub_defs)
  have h2: "get_oneagent_version_prompt (stub_env (Some ?c)) = Inl (Exception ''rate limit exceeded'') \<or>
      (\<exists>p. get_oneagent_version_prompt (stub_env (Some ?c)) = Inr p \<and>
        responses_parse_version ?c p = Inl (Exception ''rate limit exceeded''))"
    by (simp add: stub_defs)
  show ?thesis
    using version_lookup_fault [OF h1 h2, of "[]"] by simp
qed

text \<open>
  C5: when the completion call of the version lookup succeeds but its \<open>output_parsed\<close>
  is \<open>None\<close>, the message of the error record is the fixed string
  "Failed to extract the latest OneAgent version." and the execution ends after the two
  calls of the version lookup: the summary lookup is skipped.
\<close>

theorem empty_version_parse:
  assumes "openai_client e = Some c"
    and "get_oneagent_version_prompt e = Inr p"
    and "responses_parse_version c p = Inr None"
  shows "process_dynatrace_release_news e log =
    (Inr (Response \<lparr>status_code = 500, content =
        Plain (PyDict [(''error'', ''Failed to extract the latest OneAgent version.'')])\<rparr>),
     log @ [VersionPromptCall, ParseVersionCall p])"
  using assms by (simp add: service_defs py_defs)

theorem empty_version_parse_witness:
  "process_dynatrace_release_news (stub_env (Some (stub_client (Inr None) (Inr None)))) [] =
    (Inr (Response \<lparr>status_code = 500, content =
        Plain (PyDict [(''error'', ''Failed to extract the latest OneAgent version.'')])\<rparr>),
     [VersionPromptCall, ParseVersionCall ''version prompt''])"
proof -
  let ?c = "stub_client (Inr None) (Inr None)"
  have h1: "openai_client (stub_env (Some ?c)) = Some ?c"
    by (simp add: stub_defs)
  have h2: "get_oneagent_version_prompt (stub_env (Some ?c)) = Inr ''version prompt''"
    by (simp add: stub_defs)
  have h3: "responses_parse_version ?c ''version prompt'' = Inr None"
    by (simp add: stub_defs)
  show ?thesis
    using empty_version_parse [OF h1 h2 h3, of "[]"] by simp
qed

subsection \<open>Failures of the summary lookup\<close>

text \<open>
  C6: when the summary lookup is carried out for the value \<open>ver\<close> (its prompt builder
  call is in the call log) and raises the fault \<open>ex\<close>, in the prompt builder or in the
  completion call, the main method answers with the error record whose message is
  \<open>str_of ex\<close>.
\<close>

theorem summary_lookup_fault:
  assumes "openai_client e = Some c"
    and "SummaryPromptCall ver \<in> set (snd (process_dynatrace_release_news e []))"
    and "get_oneagent_summary_prompt e ver = Inl ex \<or>
      (\<exists>q. get_oneagent_summary_prompt e ver = Inr q \<and> responses_parse_summary c q = Inl ex)"
  shows "fst (process_dynatrace_release_news e []) =
      Inr (Response \<lparr>status_code = 500, content = Plain (PyDict [(''error'', str_of ex)])\<rparr>)"
  using assms
  by (auto simp add: service_defs py_defs split: if_splits sum.splits option.splits)

theorem summary_lookup_fault_witness:
  "fst (process_dynatrace_release_news
      (stub_env (Some (stub_client (Inr (Some \<lparr>version = ''1.2.3''\<rparr>))
         (Inl (Exception ''connection timed out''))))) []) =
      Inr (Response \<lparr>status_code = 500,
        content = Plain (PyDict [(''error'', ''connection timed out'')])\<rparr>)"
proof -
  let ?c = "stub_client (Inr (Some \<lparr>version = ''1.2.3''\<rparr>))
         (Inl (Exception ''connection timed out''))"
  have h1: "openai_client (stub_env (Some ?c)) = Some ?c"
    by (simp add: stub_defs)
  have h2: "SummaryPromptCall (PyStr ''1.2.3'')
      \<in> set (snd (process_dynatrace_release_news (stub_env (Some ?c)) []))"
    by (simp add: service_defs py_defs stub_defs)
  have h3: "get_oneagent_summary_prompt (stub_env (Some ?c)) (PyStr ''1.2.3'') =
        Inl (Exception ''connection timed out'') \<or>
      (\<exists>q. get_oneagent_summary_prompt (stub_env (Some ?c)) (PyStr ''1.2.3'') = Inr q \<and>
        responses_parse_summary ?c q = Inl (Exception ''connection timed out''))"
    by (simp add: stub_defs)
  show ?thesis
    using summary_lookup_fault [OF h1 h2 h3] by simp
qed

subsection \<open>What the caller observes\<close>

text \<open>
  C7: the caller should observe either a success payload or a failure value carrying a
  message. Here the version lookup succeeds with the string "1.299 (error-free build)":
  no fault is raised, but the answer of the main method is a 500 response whose body is
  that version string, which is neither a parsed summary record nor an error record
  with a message.
\<close>

theorem answer_neither_success_nor_message:
  "fst (process_dynatrace_release_news
     (stub_env (Some (stub_client (Inr (Some \<lparr>version = ''1.299 (error-free build)''\<rparr>))
        (Inr (Some \<lparr>latestVersion = PyStr ''unset'', summary = ''Improved X''\<rparr>))))) []) =
     Inr (Response \<lparr>status_code = 500, content = Plain (PyStr ''1.299 (error-free build)'')\<rparr>)
   \<and> (\<forall>r. fst (process_dynatrace_release_news
     (stub_env (Some (stub_client (Inr (Some \<lparr>version = ''1.299 (error-free build)''\<rparr>))
        (Inr (Some \<lparr>latestVersion = PyStr ''unset'', summary = ''Improved X''\<rparr>))))) []) \<noteq>
     Inr (Returned (Model r)))
   \<and> (\<forall>m. fst (process_dynatrace_release_news
     (stub_env (Some (stub_client (Inr (Some \<lparr>version = ''1.299 (error-free build)''\<rparr>))
        (Inr (Some \<lparr>latestVersion = PyStr ''unset'', summary = ''Improved X''\<rparr>))))) []) \<noteq>
     Inr (Response \<lparr>status_code = 500, content = Plain (PyDict [(''error'', m)])\<rparr>))"
  by (simp add: service_defs py_defs stub_defs)

text \<open>
  C8: every failing answer should be a 500 response whose body is a record with the
  single field \<open>error\<close>, and no failing answer should hand back a part of the result.
  Here the version lookup succeeds with the string "24.5-error-hotfix": the answer is a
  500 response whose body is no dict at all but the version alone, the first half of
  the result.
\<close>

theorem failing_answer_is_bare_version:
  "fst (process_dynatrace_release_news
     (stub_env (Some (stub_client (Inr (Some \<lparr>version = ''24.5-error-hotfix''\<rparr>))
        (Inr (Some \<lparr>latestVersion = PyStr ''unset'', summary = ''Improved X''\<rparr>))))) []) =
     Inr (Response \<lparr>status_code = 500, content = Plain (PyStr ''24.5-error-hotfix'')\<rparr>)
   \<and> (\<forall>d. fst (process_dynatrace_release_news
     (stub_env (Some (stub_client (Inr (Some \<lparr>version = ''24.5-error-hotfix''\<rparr>))
        (Inr (Some \<lparr>latestVersion = PyStr ''unset'', summary = ''Improved X''\<rparr>))))) []) \<noteq>
     Inr (Response \<lparr>status_code = 500, content = Plain (PyDict d)\<rparr>))"
  by (simp add: service_defs py_defs stub_defs)

text \<open>
  C9: the error values and the success values of the steps should be told apart
  without ambiguity by the \<open>error\<close> key. Here the version lookup succeeds, its result
  is the string "1.305.0 (fixes agent error 42)", which is no error record, and the
  membership test that the main method applies to it holds.
\<close>

theorem success_value_passes_error_test:
  "get_oneagent_latest_version
     (stub_env (Some (stub_client
        (Inr (Some \<lparr>version = ''1.305.0 (fixes agent error 42)''\<rparr>)) (Inr None)))) [] =
     (Inr (PyStr ''1.305.0 (fixes agent error 42)''),
      [VersionPromptCall, ParseVersionCall ''version prompt''])
   \<and> py_in ''error'' (PyStr ''1.305.0 (fixes agent error 42)'')"
  by (simp add: service_defs py_defs stub_defs)

text \<open>
  C10: when the version lookup succeeds with a version string that contains the
  substring "error", the main method answers with a 500 response whose body is that bare
  string, and the execution ends after the two calls of the version lookup: the summary
  lookup is never invoked.
\<close>

theorem error_substring_version_short_circuits:
  assumes "openai_client e = Some c"
    and "get_oneagent_version_prompt e = Inr p"
    and "responses_parse_version c p = Inr (Some r)"
    and "str_contains ''error'' (version r)"
  shows "process_dynatrace_release_news e log =
    (Inr (Response \<lparr>status_code = 500, content = Plain (PyStr (version r))\<rparr>),
     log @ [VersionPromptCall, ParseVersionCall p])"
  using assms by (simp add: service_defs py_defs)

theorem error_substring_version_short_circuits_witness:
  "process_dynatrace_release_news
     (stub_env (Some (stub_client (Inr (Some \<lparr>version = ''1.2.3-error-fix''\<rparr>)) (Inr None)))) [] =
    (Inr (Response \<lparr>status_code = 500, content = Plain (PyStr ''1.2.3-error-fix'')\<rparr>),
     [VersionPromptCall, ParseVersionCall ''version prompt''])"
proof -
  let ?c = "stub_client (Inr (Some \<lparr>version = ''1.2.3-error-fix''\<rparr>)) (Inr None)"
  have h1: "openai_client (stub_env (Some ?c)) = Some ?c"
    by (simp add: stub_defs)
  have h2: "get_oneagent_version_prompt (stub_env (Some ?c)) = Inr ''version prompt''"
    by (simp add: stub_defs)
  have h3: "responses_parse_version ?c ''version prompt'' =
      Inr (Some \<lparr>version = ''1.2.3-error-fix''\<rparr>)"
    by (simp add: stub_defs)
  have h4: "str_contains ''error'' (version \<lparr>version = ''1.2.3-error-fix''\<rparr>)"
    by simp
  show ?thesis
    using error_substring_version_short_circuits [OF h1 h2 h3 h4, of "[]"] by simp
qed

end
